theory Spec2Isabelle
  imports Main "HOL-Library.Sublist"
begin

section \<open>Employee management service: the table, the payloads and the handlers\<close>

text \<open>
  The service of \<^verbatim>\<open>main.py\<close> keeps one table \<^verbatim>\<open>employees\<close> and serves five
  routes over it. The table is modelled as the list of its rows in the order a scan of
  the table yields them; every handler takes the table and returns its answer together
  with the table it leaves behind. Python strings are \<^typ>\<open>string\<close> (bytes of the
  UTF-8 encoding), Python integers are \<^typ>\<open>int\<close>.
\<close>

subsection \<open>Rows and payloads\<close>

text \<open>\<^verbatim>\<open>class EmployeeORM(Base)\<close>: columns id, name, email, age, department.\<close>

record EmployeeORM =
  id :: int
  name :: string
  email :: string
  age :: int
  department :: string

type_synonym table = "EmployeeORM list"

text \<open>\<^verbatim>\<open>class EmployeeCreate(BaseModel)\<close>: the four required fields of a create request.\<close>

record EmployeeCreate =
  name :: string
  email :: string
  age :: int
  department :: string

text \<open>
  \<^verbatim>\<open>class EmployeeUpdate(BaseModel)\<close>: four optional fields, each defaulting to
  \<^verbatim>\<open>None\<close>.
\<close>

record EmployeeUpdate =
  name :: "string option"
  email :: "string option"
  age :: "int option"
  department :: "string option"

subsection \<open>Errors and status codes\<close>

text \<open>
  A handler raises \<^verbatim>\<open>HTTPException(status_code, detail)\<close>; a payload or a query
  parameter that fails its declared constraints never reaches the handler and is answered
  by the framework with status 422. The specification calls status 400
  \<^verbatim>\<open>DuplicateKey\<close>, status 404 \<^verbatim>\<open>NotFound\<close> and status 422 \<^verbatim>\<open>InvalidField\<close>.
  An exception that no handler catches, such as the \<^verbatim>\<open>OverflowError\<close> of the database
  driver, is answered with status 500.
\<close>

datatype error = HTTPException nat string | RequestValidationError | OverflowError

fun status_code :: "error \<Rightarrow> nat" where
  "status_code (HTTPException c d) = c"
| "status_code RequestValidationError = 422"
| "status_code OverflowError = 500"

definition DuplicateKey :: "error + 'a \<Rightarrow> bool" where
  "DuplicateKey r = (case r of Inl e \<Rightarrow> status_code e = 400 | Inr _ \<Rightarrow> False)"

definition NotFound :: "error + 'a \<Rightarrow> bool" where
  "NotFound r = (case r of Inl e \<Rightarrow> status_code e = 404 | Inr _ \<Rightarrow> False)"

definition InvalidField :: "error + 'a \<Rightarrow> bool" where
  "InvalidField r = (case r of Inl e \<Rightarrow> status_code e = 422 | Inr _ \<Rightarrow> False)"

text \<open>
  The status of an answer: the error's own code, or the success code the route declares
  (\<^verbatim>\<open>status_code=status.HTTP_201_CREATED\<close> on create, 200 elsewhere).
\<close>

definition response_status :: "nat \<Rightarrow> error + 'a \<Rightarrow> nat" where
  "response_status ok r = (case r of Inl e \<Rightarrow> status_code e | Inr _ \<Rightarrow> ok)"

subsection \<open>Python helpers\<close>

text \<open>
  \<^verbatim>\<open>str.strip()\<close> removes leading and trailing whitespace. On the ASCII range Python's
  whitespace is the characters 9 to 13 and 28 to 32; whitespace beyond ASCII is left in
  place by this model.
\<close>

definition isspace :: "char \<Rightarrow> bool" where
  "isspace c = (let n = of_char c :: nat in (9 \<le> n \<and> n \<le> 13) \<or> (28 \<le> n \<and> n \<le> 32))"

definition strip :: "string \<Rightarrow> string" where
  "strip s = rev (dropWhile isspace (rev (dropWhile isspace s)))"

text \<open>Truthiness of an optional string and of an optional integer (\<^verbatim>\<open>if payload.x:\<close>).\<close>

fun truthy_str :: "string option \<Rightarrow> bool" where
  "truthy_str None = False"
| "truthy_str (Some s) = (s \<noteq> [])"

fun truthy_int :: "int option \<Rightarrow> bool" where
  "truthy_int None = False"
| "truthy_int (Some n) = (n \<noteq> 0)"

subsection \<open>Payload validation\<close>

text \<open>
  Modelled from the spec: \<^verbatim>\<open>EmailStr\<close> is pydantic's type and its validator is not part
  of the repository. The specification asks for a local part, an at sign and a domain
  that contains at least one dot. A payload's email is the address as the handler sees
  it, after validation.
\<close>

definition EmailStr :: "string \<Rightarrow> bool" where
  "EmailStr e =
     (let local = takeWhile (\<lambda>c. c \<noteq> CHR ''@'') e;
          rest = dropWhile (\<lambda>c. c \<noteq> CHR ''@'') e
      in local \<noteq> [] \<and> rest \<noteq> [] \<and> CHR ''.'' \<in> set (tl rest) \<and> CHR ''@'' \<notin> set (tl rest))"

text \<open>
  The field constraints of \<^verbatim>\<open>EmployeeCreate\<close>: \<^verbatim>\<open>min_length=1\<close> on name and
  department (on the value as sent, nothing is trimmed first), \<^verbatim>\<open>ge=18, le=100\<close>
  on age.
\<close>

definition EmployeeCreate_valid :: "EmployeeCreate \<Rightarrow> bool" where
  "EmployeeCreate_valid p =
     (1 \<le> length (EmployeeCreate.name p) \<and> EmailStr (EmployeeCreate.email p) \<and>
      18 \<le> EmployeeCreate.age p \<and> EmployeeCreate.age p \<le> 100 \<and>
      1 \<le> length (EmployeeCreate.department p))"

text \<open>\<^verbatim>\<open>EmployeeUpdate\<close> declares no constraint but the type of the email.\<close>

definition EmployeeUpdate_valid :: "EmployeeUpdate \<Rightarrow> bool" where
  "EmployeeUpdate_valid p =
     (case EmployeeUpdate.email p of None \<Rightarrow> True | Some e \<Rightarrow> EmailStr e)"

subsection \<open>The table\<close>

text \<open>
  \<^verbatim>\<open>id\<close> is the integer primary key, which SQLite assigns on insert: 1 in an empty
  table, otherwise one more than the largest id in use.
\<close>

fun next_id :: "table \<Rightarrow> int" where
  "next_id [] = 1"
| "next_id (r # rs) = Max (set (map EmployeeORM.id (r # rs))) + 1"

text \<open>\<^verbatim>\<open>db.query(EmployeeORM).filter(EmployeeORM.id == emp_id).first()\<close>\<close>

definition get_employee :: "table \<Rightarrow> int \<Rightarrow> EmployeeORM option" where
  "get_employee db emp_id = find (\<lambda>r. EmployeeORM.id r = emp_id) db"

subsection \<open>Create\<close>

definition create_employee :: "EmployeeCreate \<Rightarrow> table \<Rightarrow> (error + EmployeeORM) \<times> table" where
  "create_employee payload db =
     (if find (\<lambda>r. EmployeeORM.email r = EmployeeCreate.email payload) db \<noteq> None
      then (Inl (HTTPException 400 ''Email already exists.''), db)
      else
        let emp = \<lparr> EmployeeORM.id = next_id db,
                    name = strip (EmployeeCreate.name payload),
                    email = EmployeeCreate.email payload,
                    age = EmployeeCreate.age payload,
                    department = strip (EmployeeCreate.department payload) \<rparr>
        in (Inr emp, db @ [emp]))"

text \<open>The route \<^verbatim>\<open>POST /employees\<close>: the payload is validated, then handled.\<close>

definition post_employees :: "EmployeeCreate \<Rightarrow> table \<Rightarrow> (error + EmployeeORM) \<times> table" where
  "post_employees payload db =
     (if EmployeeCreate_valid payload then create_employee payload db
      else (Inl RequestValidationError, db))"

subsection \<open>Update and delete\<close>

text \<open>
  \<^verbatim>\<open>update_employee\<close>: look the row up (404 when absent); when the payload's email is
  truthy and differs from the row's, look for a row holding it (400 when found); assign
  each field whose payload value is truthy (\<open>update_fields\<close>, the block under
  \<^verbatim>\<open># update fields\<close>); commit. The commit rewrites the row with the primary key of
  \<^verbatim>\<open>emp\<close>.
\<close>

definition update_fields :: "EmployeeUpdate \<Rightarrow> EmployeeORM \<Rightarrow> EmployeeORM" where
  "update_fields payload emp =
     (let emp = (case EmployeeUpdate.name payload of
                   Some v \<Rightarrow> if v \<noteq> [] then emp\<lparr>EmployeeORM.name := strip v\<rparr> else emp
                 | None \<Rightarrow> emp);
          emp = (case EmployeeUpdate.email payload of
                   Some v \<Rightarrow> if v \<noteq> [] then emp\<lparr>EmployeeORM.email := v\<rparr> else emp
                 | None \<Rightarrow> emp);
          emp = (case EmployeeUpdate.age payload of
                   Some v \<Rightarrow> if v \<noteq> 0 then emp\<lparr>EmployeeORM.age := v\<rparr> else emp
                 | None \<Rightarrow> emp);
          emp = (case EmployeeUpdate.department payload of
                   Some v \<Rightarrow> if v \<noteq> [] then emp\<lparr>EmployeeORM.department := strip v\<rparr> else emp
                 | None \<Rightarrow> emp)
      in emp)"

definition update_employee :: "int \<Rightarrow> EmployeeUpdate \<Rightarrow> table \<Rightarrow> (error + EmployeeORM) \<times> table" where
  "update_employee i payload db =
     (case get_employee db i of
        None \<Rightarrow> (Inl (HTTPException 404 ''Employee not found''), db)
      | Some emp \<Rightarrow>
          if truthy_str (EmployeeUpdate.email payload) \<and>
             EmployeeUpdate.email payload \<noteq> Some (EmployeeORM.email emp) \<and>
             find (\<lambda>r. Some (EmployeeORM.email r) = EmployeeUpdate.email payload) db \<noteq> None
          then (Inl (HTTPException 400 ''Email already in use.''), db)
          else
            let emp' = update_fields payload emp
            in (Inr emp',
                map (\<lambda>r. if EmployeeORM.id r = EmployeeORM.id emp then emp' else r) db))"

text \<open>The route \<^verbatim>\<open>PUT /employees/{id}\<close>.\<close>

definition put_employee :: "int \<Rightarrow> EmployeeUpdate \<Rightarrow> table \<Rightarrow> (error + EmployeeORM) \<times> table" where
  "put_employee i payload db =
     (if EmployeeUpdate_valid payload then update_employee i payload db
      else (Inl RequestValidationError, db))"

text \<open>
  \<^verbatim>\<open>delete_employee\<close>, the route \<^verbatim>\<open>DELETE /employees/{id}\<close>: 404 when the row is
  absent, otherwise the row is deleted and a message returned.
\<close>

definition delete_employee :: "int \<Rightarrow> table \<Rightarrow> (error + string) \<times> table" where
  "delete_employee i db =
     (case find (\<lambda>r. EmployeeORM.id r = i) db of
        None \<Rightarrow> (Inl (HTTPException 404 ''Employee not found''), db)
      | Some emp \<Rightarrow>
          (Inr ''Employee deleted successfully'',
           filter (\<lambda>r. EmployeeORM.id r \<noteq> EmployeeORM.id emp) db))"

subsection \<open>The LIKE operator of the database\<close>

text \<open>
  \<^verbatim>\<open>DATABASE_URL = "sqlite:///./employees.db"\<close>: the table lives in SQLite. SQLite's LIKE
  reads pattern and text as C strings, up to their first NUL, and character by character
  of their UTF-8 encoding: a lead byte takes the continuation bytes after it along. In
  the pattern a percent sign matches any run of characters and an underscore any one
  character; every other character matches itself, and two ASCII letters that differ in
  case only match as well. The comparison of two ordinary characters is a parameter of
  \<open>like_match\<close>, SQLite's choice of it is in \<open>sqlite_like\<close>. Two things are outside
  this model: patterns of more than 50000 bytes, which SQLite refuses, and the characters
  U+FFFD, U+FFFE and U+FFFF, which SQLite's LIKE does not tell apart.
\<close>

definition ascii_lower :: "char \<Rightarrow> char" where
  "ascii_lower c =
     (let n = of_char c :: nat in if 65 \<le> n \<and> n \<le> 90 then char_of (n + 32) else c)"

definition c_string :: "string \<Rightarrow> string" where
  "c_string s = takeWhile (\<lambda>c. c \<noteq> CHR 0x00) s"

definition utf8_continuation :: "char \<Rightarrow> bool" where
  "utf8_continuation c = (let n = of_char c :: nat in 128 \<le> n \<and> n < 192)"

fun utf8_next :: "string \<Rightarrow> string" where
  "utf8_next [] = []"
| "utf8_next (c # cs) = (if 192 \<le> (of_char c :: nat) then dropWhile utf8_continuation cs else cs)"

function like_match :: "(char \<Rightarrow> char \<Rightarrow> bool) \<Rightarrow> string \<Rightarrow> string \<Rightarrow> bool" where
  "like_match ceq [] s = (s = [])"
| "like_match ceq (p # ps) [] = (p = CHR ''%'' \<and> like_match ceq ps [])"
| "like_match ceq (p # ps) (c # cs) =
     (if p = CHR ''%'' then like_match ceq ps (c # cs) \<or> like_match ceq (p # ps) (utf8_next (c # cs))
      else if p = CHR ''_'' then like_match ceq ps (utf8_next (c # cs))
      else ceq p c \<and> like_match ceq ps cs)"
  by pat_completeness auto
termination
  by (relation "measure (\<lambda>(ceq, p, s). length p + length s)")
     (auto simp: less_Suc_eq_le intro: le_SucI length_dropWhile_le)

definition sqlite_like :: "string \<Rightarrow> string \<Rightarrow> bool" where
  "sqlite_like pat s =
     like_match (\<lambda>a b. ascii_lower a = ascii_lower b) (c_string pat) (c_string s)"

text \<open>
  \<^verbatim>\<open>column.ilike(pat)\<close> is sent to SQLite as \<^verbatim>\<open>lower(column) LIKE lower(pat)\<close>, and
  \<^verbatim>\<open>column.contains(x)\<close> as \<^verbatim>\<open>column LIKE '%' || x || '%'\<close>. SQLite's
  \<^verbatim>\<open>lower\<close> maps ASCII letters only.
\<close>

definition ilike :: "string \<Rightarrow> string \<Rightarrow> bool" where
  "ilike col pat = sqlite_like (map ascii_lower pat) (map ascii_lower col)"

definition contains :: "string \<Rightarrow> string \<Rightarrow> bool" where
  "contains col x = sqlite_like (''%'' @ x @ ''%'') col"

subsection \<open>List\<close>

text \<open>The query of \<^verbatim>\<open>list_employees\<close> before its offset and limit.\<close>

definition list_query :: "string option \<Rightarrow> string option \<Rightarrow> table \<Rightarrow> EmployeeORM list" where
  "list_query dept search db =
     (let q = db;
          q = (case dept of
                 Some d \<Rightarrow> if d \<noteq> [] then filter (\<lambda>r. EmployeeORM.department r = d) q else q
               | None \<Rightarrow> q);
          q = (case search of
                 Some x \<Rightarrow> if x \<noteq> [] then filter (\<lambda>r. ilike (EmployeeORM.name r) (''%'' @ x @ ''%'')) q else q
               | None \<Rightarrow> q)
      in q)"

text \<open>
  \<^verbatim>\<open>q.offset((page - 1) * per_page).limit(per_page)\<close>: offset and limit reach SQLite as
  integer parameters of 64 bits. The driver raises \<^verbatim>\<open>OverflowError\<close> for an offset above
  \<open>2^63 - 1\<close>; nothing catches it. The route below calls the handler with \<open>page\<close> at least 1
  and \<open>per_page\<close> between 1 and 100 only, so offset and limit are never negative.
\<close>

definition list_employees ::
  "string option \<Rightarrow> string option \<Rightarrow> int \<Rightarrow> int \<Rightarrow> table \<Rightarrow> error + EmployeeORM list" where
  "list_employees dept search page per_page db =
     (let offset = (page - 1) * per_page
      in if 9223372036854775807 < offset then Inl OverflowError
         else Inr (take (nat per_page) (drop (nat offset) (list_query dept search db))))"

text \<open>
  The route \<^verbatim>\<open>GET /employees\<close>: \<^verbatim>\<open>page: int = Query(1, ge=1)\<close> and
  \<^verbatim>\<open>per_page: int = Query(10, ge=1, le=100)\<close>; an omitted parameter takes its default,
  a parameter outside its bounds is answered with 422.
\<close>

definition get_employees ::
  "string option \<Rightarrow> string option \<Rightarrow> int option \<Rightarrow> int option \<Rightarrow> table \<Rightarrow> error + EmployeeORM list" where
  "get_employees dept search page per_page db =
     (let p = (case page of None \<Rightarrow> 1 | Some v \<Rightarrow> v);
          n = (case per_page of None \<Rightarrow> 10 | Some v \<Rightarrow> v)
      in if 1 \<le> p \<and> 1 \<le> n \<and> n \<le> 100 then list_employees dept search p n db
         else Inl RequestValidationError)"

subsection \<open>Export\<close>

abbreviation DQUOTE :: char where "DQUOTE \<equiv> CHR 0x22"
abbreviation COMMA :: char where "COMMA \<equiv> CHR '',''"
abbreviation CR :: char where "CR \<equiv> CHR 0x0D"
abbreviation LF :: char where "LF \<equiv> CHR 0x0A"

text \<open>\<^verbatim>\<open>str(n)\<close> of a Python integer: decimal digits, a minus sign when negative.\<close>

function str_nat :: "nat \<Rightarrow> string" where
  "str_nat n = (if n < 10 then [char_of (48 + n)] else str_nat (n div 10) @ [char_of (48 + n mod 10)])"
  by pat_completeness auto
termination
  by (relation "measure (\<lambda>n. n)") auto

definition str_int :: "int \<Rightarrow> string" where
  "str_int i = (if i < 0 then CHR ''-'' # str_nat (nat (- i)) else str_nat (nat i))"

text \<open>
  \<^verbatim>\<open>csv.writer(buf)\<close> with the default dialect: delimiter comma, quote character the
  double quote, \<^verbatim>\<open>QUOTE_MINIMAL\<close>, \<^verbatim>\<open>doublequote\<close>, line terminator CR LF. A field
  is quoted when it holds the delimiter, the quote character or a character of the line
  terminator; inside quotes a quote character is written twice.
\<close>

definition csv_special :: "char \<Rightarrow> bool" where
  "csv_special c = (c = COMMA \<or> c = DQUOTE \<or> c = CR \<or> c = LF)"

fun csv_escape :: "string \<Rightarrow> string" where
  "csv_escape [] = []"
| "csv_escape (c # cs) = (if c = DQUOTE then DQUOTE # DQUOTE # csv_escape cs else c # csv_escape cs)"

definition csv_field :: "string \<Rightarrow> string" where
  "csv_field s = (if list_ex csv_special s then DQUOTE # csv_escape s @ [DQUOTE] else s)"

fun csv_join :: "string list \<Rightarrow> string" where
  "csv_join [] = []"
| "csv_join [f] = csv_field f"
| "csv_join (f # fs) = csv_field f @ COMMA # csv_join fs"

definition writerow :: "string list \<Rightarrow> string" where
  "writerow fs = csv_join fs @ [CR, LF]"

text \<open>The query of \<^verbatim>\<open>export_employees\<close>.\<close>

definition export_query :: "string option \<Rightarrow> string option \<Rightarrow> table \<Rightarrow> EmployeeORM list" where
  "export_query dept search db =
     (let q = db;
          q = (case dept of
                 Some d \<Rightarrow> if d \<noteq> [] then filter (\<lambda>r. EmployeeORM.department r = d) q else q
               | None \<Rightarrow> q);
          q = (case search of
                 Some x \<Rightarrow> if x \<noteq> [] then filter (\<lambda>r. contains (EmployeeORM.name r) x) q else q
               | None \<Rightarrow> q)
      in q)"

definition csv_header :: "string list" where
  "csv_header = [''id'', ''name'', ''email'', ''age'', ''department'']"

definition csv_record :: "EmployeeORM \<Rightarrow> string list" where
  "csv_record r =
     [str_int (EmployeeORM.id r), EmployeeORM.name r, EmployeeORM.email r,
      str_int (EmployeeORM.age r), EmployeeORM.department r]"

datatype export_body = Json "EmployeeORM list" | Csv string

text \<open>
  \<^verbatim>\<open>export_employees\<close>, with \<^verbatim>\<open>fmt\<close> already matched against \<^verbatim>\<open>^(csv|json)$\<close> by
  the framework: the rows themselves when \<^verbatim>\<open>fmt == "json"\<close>, otherwise the text the
  writer produced.
\<close>

definition export_employees :: "string \<Rightarrow> string option \<Rightarrow> string option \<Rightarrow> table \<Rightarrow> export_body" where
  "export_employees fmt dept search db =
     (let rows = export_query dept search db
      in if fmt = ''json'' then Json rows
         else Csv (writerow csv_header @ concat (map (\<lambda>r. writerow (csv_record r)) rows)))"

subsection \<open>Reading CSV\<close>

text \<open>
  A reader for the comma-separated format of RFC 4180, against which the writer is
  checked: records end with CR LF, fields are separated by commas, a field that starts
  with a double quote runs to the next lone double quote and two double quotes inside it
  stand for one. The reader keeps the field, the record and the records read so far.
\<close>

datatype csv_state = FieldStart | Unquoted | Quoted | QuoteSeen | AfterCR

fun csv_read :: "csv_state \<Rightarrow> string \<Rightarrow> string list \<Rightarrow> string list list \<Rightarrow> string \<Rightarrow> string list list option" where
  "csv_read st f row rows [] = (if st = FieldStart \<and> row = [] then Some rows else None)"
| "csv_read FieldStart f row rows (c # cs) =
     (if c = DQUOTE then csv_read Quoted [] row rows cs
      else if c = COMMA then csv_read FieldStart [] (row @ [[]]) rows cs
      else if c = CR then csv_read AfterCR [] (row @ [[]]) rows cs
      else if c = LF then None
      else csv_read Unquoted [c] row rows cs)"
| "csv_read Unquoted f row rows (c # cs) =
     (if c = DQUOTE then None
      else if c = COMMA then csv_read FieldStart [] (row @ [f]) rows cs
      else if c = CR then csv_read AfterCR [] (row @ [f]) rows cs
      else if c = LF then None
      else csv_read Unquoted (f @ [c]) row rows cs)"
| "csv_read Quoted f row rows (c # cs) =
     (if c = DQUOTE then csv_read QuoteSeen f row rows cs
      else csv_read Quoted (f @ [c]) row rows cs)"
| "csv_read QuoteSeen f row rows (c # cs) =
     (if c = DQUOTE then csv_read Quoted (f @ [DQUOTE]) row rows cs
      else if c = COMMA then csv_read FieldStart [] (row @ [f]) rows cs
      else if c = CR then csv_read AfterCR [] (row @ [f]) rows cs
      else None)"
| "csv_read AfterCR f row rows (c # cs) =
     (if c = LF then csv_read FieldStart [] [] (rows @ [row]) cs else None)"

definition csv_parse :: "string \<Rightarrow> string list list option" where
  "csv_parse s = csv_read FieldStart [] [] [] s"

section \<open>What the specification says, and sample data\<close>




text \<open>Two create requests served one after the other, and what the specification expects of them.\<close>

definition create_twice ::
  "EmployeeCreate \<Rightarrow> EmployeeCreate \<Rightarrow> table \<Rightarrow> (error + EmployeeORM) \<times> (error + EmployeeORM) \<times> table" where
  "create_twice a b db =
     (let (ra, db1) = post_employees a db; (rb, db2) = post_employees b db1 in (ra, rb, db2))"

definition one_created_one_duplicate ::
  "table \<Rightarrow> (error + EmployeeORM) \<times> (error + EmployeeORM) \<times> table \<Rightarrow> bool" where
  "one_created_one_duplicate db out =
     (case out of (r1, r2, db') \<Rightarrow>
        (case r1 of
           Inr emp \<Rightarrow> response_status 201 r1 = 201 \<and> EmployeeORM.id emp \<notin> EmployeeORM.id ` set db \<and>
                      DuplicateKey r2 \<and> response_status 201 r2 = 400 \<and> db' = db @ [emp]
         | Inl _ \<Rightarrow> False))"

text \<open>Sample requests and rows.\<close>

definition alice :: EmployeeCreate where
  "alice = \<lparr> EmployeeCreate.name = ''Alice'', email = ''alice@example.com'', age = 30,
             department = ''Engineering'' \<rparr>"

definition alice_again :: EmployeeCreate where
  "alice_again = \<lparr> EmployeeCreate.name = ''Alice B'', email = ''alice@example.com'', age = 45,
                   department = ''Sales'' \<rparr>"

definition blank_name :: EmployeeCreate where
  "blank_name = \<lparr> EmployeeCreate.name = '' '', email = ''alice@example.com'', age = 30,
                  department = ''Engineering'' \<rparr>"

definition underage :: EmployeeCreate where
  "underage = \<lparr> EmployeeCreate.name = ''Carol'', email = ''carol@example.com'', age = 17,
                department = ''Sales'' \<rparr>"

definition alice_row :: EmployeeORM where
  "alice_row = \<lparr> EmployeeORM.id = 1, name = ''Alice'', email = ''alice@example.com'', age = 30,
                 department = ''Engineering'' \<rparr>"

definition bob_row :: EmployeeORM where
  "bob_row = \<lparr> EmployeeORM.id = 2, name = ''Bob, the builder'', email = ''bob@example.com'', age = 41,
               department = ''Sales'' \<rparr>"


definition staff :: table where
  "staff = [alice_row, bob_row]"


definition only_age :: "int \<Rightarrow> EmployeeUpdate" where
  "only_age n = \<lparr> EmployeeUpdate.name = None, email = None, age = Some n, department = None \<rparr>"

definition only_email :: "string \<Rightarrow> EmployeeUpdate" where
  "only_email e = \<lparr> EmployeeUpdate.name = None, email = Some e, age = None, department = None \<rparr>"

section \<open>Properties\<close>

lemma next_id_fresh: "next_id db \<notin> EmployeeORM.id ` set db"
proof (cases db)
  case Nil
  then show ?thesis by simp
next
  case (Cons r rs)
  have "\<And>x. x \<in> EmployeeORM.id ` set db \<Longrightarrow> x \<le> Max (EmployeeORM.id ` set db)"
    by (rule Max_ge) simp_all
  then have "\<And>x. x \<in> EmployeeORM.id ` set db \<Longrightarrow> x < next_id db"
    using Cons by fastforce
  then show ?thesis by blast
qed

lemma find_None_iff_email: "(find (\<lambda>r. EmployeeORM.email r = e) db = None) = (e \<notin> EmployeeORM.email ` set db)"
  by (auto simp: find_None_iff)

lemma EmailStr_nonempty: "EmailStr e \<Longrightarrow> e \<noteq> []"
  by (auto simp: EmailStr_def)

lemma sample_valid: "EmployeeCreate_valid alice" "EmployeeCreate_valid alice_again"
  by (simp_all add: alice_def alice_again_def EmployeeCreate_valid_def EmailStr_def)

lemma get_employee_staff: "get_employee staff 1 = Some alice_row" "get_employee staff 7 = None"
  by (simp_all add: get_employee_def staff_def alice_row_def bob_row_def)

subsection \<open>Create: one email, one row\<close>

lemma create_employee_new:
  assumes "EmployeeCreate.email p \<notin> EmployeeORM.email ` set db"
  shows "create_employee p db =
     (Inr \<lparr> EmployeeORM.id = next_id db, name = strip (EmployeeCreate.name p),
            email = EmployeeCreate.email p, age = EmployeeCreate.age p,
            department = strip (EmployeeCreate.department p) \<rparr>,
      db @ [\<lparr> EmployeeORM.id = next_id db, name = strip (EmployeeCreate.name p),
            email = EmployeeCreate.email p, age = EmployeeCreate.age p,
            department = strip (EmployeeCreate.department p) \<rparr>])"
  using assms by (simp add: create_employee_def find_None_iff_email Let_def)

lemma create_employee_dup:
  assumes "EmployeeCreate.email p \<in> EmployeeORM.email ` set db"
  shows "create_employee p db = (Inl (HTTPException 400 ''Email already exists.''), db)"
  using assms by (simp add: create_employee_def find_None_iff_email)

lemma create_twice_first_wins:
  assumes va: "EmployeeCreate_valid a" and vb: "EmployeeCreate_valid b"
    and same: "EmployeeCreate.email a = EmployeeCreate.email b"
    and new: "EmployeeCreate.email a \<notin> EmployeeORM.email ` set db"
  shows "\<exists>emp. create_twice a b db = (Inr emp, Inl (HTTPException 400 ''Email already exists.''), db @ [emp])
            \<and> EmployeeORM.id emp \<notin> EmployeeORM.id ` set db
            \<and> EmployeeORM.email emp = EmployeeCreate.email a"
proof -
  let ?emp = "\<lparr> EmployeeORM.id = next_id db, name = strip (EmployeeCreate.name a),
            email = EmployeeCreate.email a, age = EmployeeCreate.age a,
            department = strip (EmployeeCreate.department a) \<rparr>"
  have first: "post_employees a db = (Inr ?emp, db @ [?emp])"
    using va create_employee_new [OF new] by (simp add: post_employees_def)
  have "EmployeeCreate.email b \<in> EmployeeORM.email ` set (db @ [?emp])"
    using same by simp
  then have second: "post_employees b (db @ [?emp]) = (Inl (HTTPException 400 ''Email already exists.''), db @ [?emp])"
    using vb create_employee_dup by (simp add: post_employees_def)
  have "create_twice a b db = (Inr ?emp, Inl (HTTPException 400 ''Email already exists.''), db @ [?emp])"
    by (simp add: create_twice_def first second)
  moreover have "EmployeeORM.id ?emp \<notin> EmployeeORM.id ` set db"
    using next_id_fresh [of db] by simp
  ultimately show ?thesis by auto
qed

text \<open>
  C1. Two valid create requests carry the same email (compared character by character)
  and the table holds no row with that email. Served one after the other, in either
  order, the first is answered 201 with a row whose id no earlier row has, the second is
  answered 400 (\<open>DuplicateKey\<close>), and the table has gained exactly the one row.
\<close>

theorem create_same_email_once:
  assumes "EmployeeCreate_valid p1" and "EmployeeCreate_valid p2"
    and "EmployeeCreate.email p1 = EmployeeCreate.email p2"
    and "EmployeeCreate.email p1 \<notin> EmployeeORM.email ` set db"
  shows "one_created_one_duplicate db (create_twice p1 p2 db) \<and>
         one_created_one_duplicate db (create_twice p2 p1 db)"
proof -
  have "one_created_one_duplicate db (create_twice a b db)"
    if "EmployeeCreate_valid a" "EmployeeCreate_valid b"
       "EmployeeCreate.email a = EmployeeCreate.email b"
       "EmployeeCreate.email a \<notin> EmployeeORM.email ` set db" for a b
    using create_twice_first_wins [OF that]
    by (auto simp: one_created_one_duplicate_def response_status_def DuplicateKey_def)
  from this [of p1 p2] this [of p2 p1] assms show ?thesis by simp
qed

theorem create_same_email_once_witness:
  "EmployeeCreate_valid alice \<and> EmployeeCreate_valid alice_again \<and>
   EmployeeCreate.email alice = EmployeeCreate.email alice_again \<and>
   EmployeeCreate.email alice \<notin> EmployeeORM.email ` set [] \<and>
   one_created_one_duplicate [] (create_twice alice alice_again []) \<and>
   one_created_one_duplicate [] (create_twice alice_again alice [])"
proof -
  have e: "EmployeeCreate.email alice = EmployeeCreate.email alice_again"
    by (simp add: alice_def alice_again_def)
  have n: "EmployeeCreate.email alice \<notin> EmployeeORM.email ` set []" by simp
  show ?thesis
    using create_same_email_once [OF sample_valid(1) sample_valid(2) e n] sample_valid e by simp
qed

subsection \<open>Update: the three outcomes\<close>

lemma update_employee_absent:
  "get_employee db i = None \<Longrightarrow>
   update_employee i payload db = (Inl (HTTPException 404 ''Employee not found''), db)"
  by (simp add: update_employee_def)

lemma update_employee_in_use:
  "get_employee db i = Some emp \<Longrightarrow> EmployeeUpdate.email payload = Some e \<Longrightarrow> e \<noteq> [] \<Longrightarrow>
   e \<noteq> EmployeeORM.email emp \<Longrightarrow> \<exists>r\<in>set db. EmployeeORM.email r = e \<Longrightarrow>
   update_employee i payload db = (Inl (HTTPException 400 ''Email already in use.''), db)"
  by (auto simp: update_employee_def find_None_iff)

lemma update_employee_applies:
  "get_employee db i = Some emp \<Longrightarrow>
   \<not> (\<exists>e. EmployeeUpdate.email payload = Some e \<and> e \<noteq> [] \<and> e \<noteq> EmployeeORM.email emp \<and>
          (\<exists>r\<in>set db. EmployeeORM.email r = e)) \<Longrightarrow>
   update_employee i payload db =
     (Inr (update_fields payload emp),
      map (\<lambda>r. if EmployeeORM.id r = EmployeeORM.id emp then update_fields payload emp else r) db)"
  by (cases "EmployeeUpdate.email payload")
     (auto simp: update_employee_def Let_def find_None_iff dest: find_Some_iff [THEN iffD1])

text \<open>
  C3. A create, update or delete that is answered with an error, whichever error, leaves
  the table exactly as it was.
\<close>

theorem failed_mutation_keeps_table:
  "(fst (post_employees p db) = Inl e \<longrightarrow> snd (post_employees p db) = db) \<and>
   (fst (put_employee i u db) = Inl e \<longrightarrow> snd (put_employee i u db) = db) \<and>
   (fst (delete_employee i db) = Inl e \<longrightarrow> snd (delete_employee i db) = db)"
proof (intro conjI impI)
  assume "fst (post_employees p db) = Inl e"
  then show "snd (post_employees p db) = db"
    by (simp add: post_employees_def create_employee_def Let_def split: if_splits)
next
  assume "fst (put_employee i u db) = Inl e"
  then show "snd (put_employee i u db) = db"
    by (simp add: put_employee_def update_employee_def Let_def split: if_splits option.splits)
next
  assume "fst (delete_employee i db) = Inl e"
  then show "snd (delete_employee i db) = db"
    by (simp add: delete_employee_def split: option.splits)
qed

theorem failed_mutation_keeps_table_witness:
  "fst (post_employees alice staff) = Inl (HTTPException 400 ''Email already exists.'') \<and>
   snd (post_employees alice staff) = staff \<and>
   fst (post_employees underage staff) = Inl RequestValidationError \<and>
   snd (post_employees underage staff) = staff \<and>
   fst (put_employee 1 (only_email ''bob@example.com'') staff) = Inl (HTTPException 400 ''Email already in use.'') \<and>
   snd (put_employee 1 (only_email ''bob@example.com'') staff) = staff \<and>
   fst (put_employee 7 (only_age 31) staff) = Inl (HTTPException 404 ''Employee not found'') \<and>
   snd (put_employee 7 (only_age 31) staff) = staff \<and>
   fst (delete_employee 7 staff) = Inl (HTTPException 404 ''Employee not found'') \<and>
   snd (delete_employee 7 staff) = staff"
proof -
  have c: "fst (post_employees alice staff) = Inl (HTTPException 400 ''Email already exists.'')"
    using sample_valid(1)
    by (simp add: post_employees_def create_employee_def staff_def alice_row_def bob_row_def alice_def)
  have v: "fst (post_employees underage staff) = Inl RequestValidationError"
    by (simp add: post_employees_def EmployeeCreate_valid_def underage_def)
  have d: "fst (put_employee 1 (only_email ''bob@example.com'') staff) = Inl (HTTPException 400 ''Email already in use.'')"
    by (simp add: put_employee_def EmployeeUpdate_valid_def EmailStr_def only_email_def
          update_employee_def get_employee_staff)
       (simp add: staff_def alice_row_def bob_row_def)
  have u: "fst (put_employee 7 (only_age 31) staff) = Inl (HTTPException 404 ''Employee not found'')"
    by (simp add: put_employee_def EmployeeUpdate_valid_def only_age_def update_employee_def
          get_employee_staff)
  have x: "fst (delete_employee 7 staff) = Inl (HTTPException 404 ''Employee not found'')"
    by (simp add: delete_employee_def staff_def alice_row_def bob_row_def)
  show ?thesis
    using c v d u x
      failed_mutation_keeps_table [where p = alice and db = staff
        and e = "HTTPException 400 ''Email already exists.''"]
      failed_mutation_keeps_table [where p = underage and db = staff and e = RequestValidationError]
      failed_mutation_keeps_table [where db = staff and e = "HTTPException 400 ''Email already in use.''"
        and i = 1 and u = "only_email ''bob@example.com''"]
      failed_mutation_keeps_table [where db = staff and e = "HTTPException 404 ''Employee not found''"
        and i = 7 and u = "only_age 31"]
    by blast
qed

text \<open>
  C4. The row with the given id exists and the payload is a valid update. The update is
  answered 400 (\<open>DuplicateKey\<close>) exactly when the payload carries an email that differs
  from the row's own and is the email of another row of the table. In particular a
  payload without email, or with the row's own email, is never answered 400.
\<close>

theorem update_duplicate_iff:
  assumes found: "get_employee db i = Some emp" and valid: "EmployeeUpdate_valid payload"
  shows "(DuplicateKey (fst (put_employee i payload db)) =
           (\<exists>e. EmployeeUpdate.email payload = Some e \<and> e \<noteq> EmployeeORM.email emp \<and>
                (\<exists>r\<in>set db. r \<noteq> emp \<and> EmployeeORM.email r = e))) \<and>
         (EmployeeUpdate.email payload = None \<or>
          EmployeeUpdate.email payload = Some (EmployeeORM.email emp) \<longrightarrow>
            \<not> DuplicateKey (fst (put_employee i payload db)))"
proof -
  have main: "DuplicateKey (fst (put_employee i payload db)) =
           (\<exists>e. EmployeeUpdate.email payload = Some e \<and> e \<noteq> EmployeeORM.email emp \<and>
                (\<exists>r\<in>set db. r \<noteq> emp \<and> EmployeeORM.email r = e))"
  proof (cases "\<exists>e. EmployeeUpdate.email payload = Some e \<and> e \<noteq> [] \<and> e \<noteq> EmployeeORM.email emp \<and>
          (\<exists>r\<in>set db. EmployeeORM.email r = e)")
    case True
    then obtain e where e: "EmployeeUpdate.email payload = Some e" "e \<noteq> []" "e \<noteq> EmployeeORM.email emp"
        "\<exists>r\<in>set db. EmployeeORM.email r = e" by blast
    have "DuplicateKey (fst (put_employee i payload db))"
      using valid update_employee_in_use [OF found e]
      by (simp add: put_employee_def DuplicateKey_def)
    moreover have "\<exists>r\<in>set db. r \<noteq> emp \<and> EmployeeORM.email r = e"
      using e(3,4) by auto
    ultimately show ?thesis using e by auto
  next
    case False
    have "\<not> DuplicateKey (fst (put_employee i payload db))"
      using valid update_employee_applies [OF found False]
      by (simp add: put_employee_def DuplicateKey_def)
    moreover have "\<not> (\<exists>e. EmployeeUpdate.email payload = Some e \<and> e \<noteq> EmployeeORM.email emp \<and>
                  (\<exists>r\<in>set db. r \<noteq> emp \<and> EmployeeORM.email r = e))"
    proof
      assume "\<exists>e. EmployeeUpdate.email payload = Some e \<and> e \<noteq> EmployeeORM.email emp \<and>
                  (\<exists>r\<in>set db. r \<noteq> emp \<and> EmployeeORM.email r = e)"
      then obtain e where e: "EmployeeUpdate.email payload = Some e" "e \<noteq> EmployeeORM.email emp"
          "\<exists>r\<in>set db. r \<noteq> emp \<and> EmployeeORM.email r = e" by blast
      from valid e(1) have "e \<noteq> []"
        by (simp add: EmployeeUpdate_valid_def EmailStr_nonempty)
      with e False show False by blast
    qed
    ultimately show ?thesis by simp
  qed
  then show ?thesis by auto
qed

theorem update_duplicate_iff_witness:
  "get_employee staff 1 = Some alice_row \<and>
   EmployeeUpdate_valid (only_email ''bob@example.com'') \<and>
   EmployeeUpdate_valid (only_email ''alice@example.com'') \<and>
   EmployeeUpdate_valid (only_age 31) \<and>
   DuplicateKey (fst (put_employee 1 (only_email ''bob@example.com'') staff)) \<and>
   \<not> DuplicateKey (fst (put_employee 1 (only_email ''alice@example.com'') staff)) \<and>
   \<not> DuplicateKey (fst (put_employee 1 (only_age 31) staff))"
proof -
  have v: "EmployeeUpdate_valid (only_email ''bob@example.com'')"
      "EmployeeUpdate_valid (only_email ''alice@example.com'')" "EmployeeUpdate_valid (only_age 31)"
    by (simp_all add: EmployeeUpdate_valid_def only_email_def only_age_def EmailStr_def)
  have other: "\<exists>e. EmployeeUpdate.email (only_email ''bob@example.com'') = Some e \<and>
       e \<noteq> EmployeeORM.email alice_row \<and> (\<exists>r\<in>set staff. r \<noteq> alice_row \<and> EmployeeORM.email r = e)"
    by (simp add: only_email_def staff_def alice_row_def bob_row_def)
  have own: "EmployeeUpdate.email (only_email ''alice@example.com'') = Some (EmployeeORM.email alice_row)"
    by (simp add: only_email_def alice_row_def)
  have none: "EmployeeUpdate.email (only_age 31) = None"
    by (simp add: only_age_def)
  show ?thesis
    using v other own none get_employee_staff(1)
      update_duplicate_iff [OF get_employee_staff(1) v(1)]
      update_duplicate_iff [OF get_employee_staff(1) v(2)]
      update_duplicate_iff [OF get_employee_staff(1) v(3)]
    by blast
qed

subsection \<open>Update: which fields are written\<close>

lemma update_employee_Inr:
  assumes "get_employee db i = Some emp" and "update_employee i payload db = (Inr emp', db')"
  shows "emp' = update_fields payload emp"
    and "db' = map (\<lambda>r. if EmployeeORM.id r = EmployeeORM.id emp then emp' else r) db"
  using assms by (auto simp: update_employee_def Let_def split: if_splits)

lemma update_fields_id: "EmployeeORM.id (update_fields payload emp) = EmployeeORM.id emp"
  by (simp add: update_fields_def Let_def split: option.splits)

lemma update_fields_name:
  "EmployeeORM.name (update_fields payload emp) =
     (case EmployeeUpdate.name payload of
        Some v \<Rightarrow> if v \<noteq> [] then strip v else EmployeeORM.name emp
      | None \<Rightarrow> EmployeeORM.name emp)"
  by (simp add: update_fields_def Let_def split: option.splits)

lemma update_fields_email:
  "EmployeeORM.email (update_fields payload emp) =
     (case EmployeeUpdate.email payload of
        Some v \<Rightarrow> if v \<noteq> [] then v else EmployeeORM.email emp
      | None \<Rightarrow> EmployeeORM.email emp)"
  by (simp add: update_fields_def Let_def split: option.splits)

lemma update_fields_age:
  "EmployeeORM.age (update_fields payload emp) =
     (case EmployeeUpdate.age payload of
        Some v \<Rightarrow> if v \<noteq> 0 then v else EmployeeORM.age emp
      | None \<Rightarrow> EmployeeORM.age emp)"
  by (simp add: update_fields_def Let_def split: option.splits)

lemma update_fields_department:
  "EmployeeORM.department (update_fields payload emp) =
     (case EmployeeUpdate.department payload of
        Some v \<Rightarrow> if v \<noteq> [] then strip v else EmployeeORM.department emp
      | None \<Rightarrow> EmployeeORM.department emp)"
  by (simp add: update_fields_def Let_def split: option.splits)

lemma get_employee_id: "get_employee db i = Some emp \<Longrightarrow> EmployeeORM.id emp = i \<and> emp \<in> set db"
  by (auto simp: get_employee_def find_Some_iff)

lemma get_employee_map:
  "get_employee db i = Some emp \<Longrightarrow> EmployeeORM.id emp' = i \<Longrightarrow>
   get_employee (map (\<lambda>r. if EmployeeORM.id r = i then emp' else r) db) i = Some emp'"
  unfolding get_employee_def
  by (induction db) (auto split: if_splits)

text \<open>
  C6. An update of an existing row succeeds. Every field among name, email, age and
  department whose payload value is absent or falsy (\<^verbatim>\<open>None\<close>, the empty string, zero)
  keeps its stored value; a field is written only when its payload value is truthy, and
  then with that value (trimmed, for name and department). The answer is the row as it is
  stored afterwards, its id is unchanged, and every row with another id is untouched.
\<close>

theorem update_keeps_unprovided_fields:
  assumes found: "get_employee db i = Some emp"
    and ok: "put_employee i payload db = (Inr emp', db')"
  shows "(\<not> truthy_str (EmployeeUpdate.name payload) \<longrightarrow> EmployeeORM.name emp' = EmployeeORM.name emp) \<and>
         (\<not> truthy_str (EmployeeUpdate.email payload) \<longrightarrow> EmployeeORM.email emp' = EmployeeORM.email emp) \<and>
         (\<not> truthy_int (EmployeeUpdate.age payload) \<longrightarrow> EmployeeORM.age emp' = EmployeeORM.age emp) \<and>
         (\<not> truthy_str (EmployeeUpdate.department payload) \<longrightarrow>
            EmployeeORM.department emp' = EmployeeORM.department emp) \<and>
         (truthy_str (EmployeeUpdate.name payload) \<longrightarrow>
            EmployeeORM.name emp' = strip (the (EmployeeUpdate.name payload))) \<and>
         (truthy_str (EmployeeUpdate.email payload) \<longrightarrow>
            EmployeeORM.email emp' = the (EmployeeUpdate.email payload)) \<and>
         (truthy_int (EmployeeUpdate.age payload) \<longrightarrow>
            EmployeeORM.age emp' = the (EmployeeUpdate.age payload)) \<and>
         (truthy_str (EmployeeUpdate.department payload) \<longrightarrow>
            EmployeeORM.department emp' = strip (the (EmployeeUpdate.department payload))) \<and>
         EmployeeORM.id emp' = i \<and>
         get_employee db' i = Some emp' \<and>
         length db' = length db \<and>
         (\<forall>k < length db. EmployeeORM.id (db ! k) \<noteq> i \<longrightarrow> db' ! k = db ! k)"
proof -
  from ok have upd: "update_employee i payload db = (Inr emp', db')"
    by (simp add: put_employee_def split: if_splits)
  note r = update_employee_Inr [OF found upd]
  have idi: "EmployeeORM.id emp = i" using get_employee_id [OF found] by simp
  have id': "EmployeeORM.id emp' = i" by (simp add: r(1) update_fields_id idi)
  have stored: "get_employee db' i = Some emp'"
    using get_employee_map [OF found id'] r(2) idi by simp
  have name: "EmployeeORM.name emp' =
      (if truthy_str (EmployeeUpdate.name payload) then strip (the (EmployeeUpdate.name payload))
       else EmployeeORM.name emp)"
    by (simp add: r(1) update_fields_name split: option.splits)
  have email: "EmployeeORM.email emp' =
      (if truthy_str (EmployeeUpdate.email payload) then the (EmployeeUpdate.email payload)
       else EmployeeORM.email emp)"
    by (simp add: r(1) update_fields_email split: option.splits)
  have age: "EmployeeORM.age emp' =
      (if truthy_int (EmployeeUpdate.age payload) then the (EmployeeUpdate.age payload)
       else EmployeeORM.age emp)"
    by (simp add: r(1) update_fields_age split: option.splits)
  have dept: "EmployeeORM.department emp' =
      (if truthy_str (EmployeeUpdate.department payload) then strip (the (EmployeeUpdate.department payload))
       else EmployeeORM.department emp)"
    by (simp add: r(1) update_fields_department split: option.splits)
  have len: "length db' = length db" by (simp add: r(2))
  have others: "\<forall>k < length db. EmployeeORM.id (db ! k) \<noteq> i \<longrightarrow> db' ! k = db ! k"
    by (simp add: r(2) idi)
  show ?thesis
    using name email age dept id' stored len others by simp
qed

theorem update_keeps_unprovided_fields_witness:
  "get_employee staff 1 = Some alice_row \<and>
   put_employee 1 \<lparr> EmployeeUpdate.name = Some [], email = None, age = Some 0,
                     department = Some '' R and D '' \<rparr> staff =
     (Inr (alice_row\<lparr> EmployeeORM.department := ''R and D'' \<rparr>),
      [alice_row\<lparr> EmployeeORM.department := ''R and D'' \<rparr>, bob_row]) \<and>
   EmployeeORM.name (alice_row\<lparr> EmployeeORM.department := ''R and D'' \<rparr>) = EmployeeORM.name alice_row \<and>
   EmployeeORM.email (alice_row\<lparr> EmployeeORM.department := ''R and D'' \<rparr>) = EmployeeORM.email alice_row \<and>
   EmployeeORM.age (alice_row\<lparr> EmployeeORM.department := ''R and D'' \<rparr>) = EmployeeORM.age alice_row \<and>
   get_employee [alice_row\<lparr> EmployeeORM.department := ''R and D'' \<rparr>, bob_row] 1 =
     Some (alice_row\<lparr> EmployeeORM.department := ''R and D'' \<rparr>)"
proof -
  let ?p = "\<lparr> EmployeeUpdate.name = Some [], email = None, age = Some 0,
               department = Some '' R and D '' \<rparr>"
  have run: "put_employee 1 ?p staff =
     (Inr (alice_row\<lparr> EmployeeORM.department := ''R and D'' \<rparr>),
      [alice_row\<lparr> EmployeeORM.department := ''R and D'' \<rparr>, bob_row])"
    by (simp add: put_employee_def EmployeeUpdate_valid_def update_employee_def get_employee_staff
          update_fields_def Let_def strip_def isspace_def)
       (simp add: staff_def alice_row_def bob_row_def)
  show ?thesis
    using run get_employee_staff(1) update_keeps_unprovided_fields [OF get_employee_staff(1) run]
    by (simp add: strip_def isspace_def)
qed

subsection \<open>List: pages\<close>



text \<open>
  C10. A list request without \<open>page\<close> and \<open>per_page\<close> is served as page 1 of size 10:
  the first ten, or fewer, of the filtered rows.
\<close>

theorem list_defaults:
  "get_employees dept search None None db = Inr (take 10 (list_query dept search db)) \<and>
   get_employees dept search None None db = get_employees dept search (Some 1) (Some 10) db"
  by (simp add: get_employees_def list_employees_def)

theorem list_defaults_witness:
  "get_employees None None None None staff = Inr [alice_row, bob_row]"
  using list_defaults [of None None staff] by (simp add: list_query_def staff_def)

subsection \<open>Export: the CSV text reads back as the rows\<close>


lemma csv_read_unquoted:
  "\<not> list_ex csv_special s \<Longrightarrow>
   csv_read Unquoted f row rows (s @ rest) = csv_read Unquoted (f @ s) row rows rest"
  by (induction s arbitrary: f) (auto simp: csv_special_def)

lemma csv_read_quoted:
  "csv_read Quoted f row rows (csv_escape s @ DQUOTE # rest) = csv_read QuoteSeen (f @ s) row rows rest"
  by (induction s arbitrary: f) auto

lemma csv_read_field_comma:
  "csv_read FieldStart [] row rows (csv_field x @ COMMA # rest) = csv_read FieldStart [] (row @ [x]) rows rest"
proof (cases "list_ex csv_special x")
  case True
  then show ?thesis
    using csv_read_quoted [of "[]" row rows x "COMMA # rest"] by (simp add: csv_field_def)
next
  case False
  show ?thesis
  proof (cases x)
    case Nil
    then show ?thesis by (simp add: csv_field_def)
  next
    case (Cons c cs)
    with False have c: "\<not> csv_special c" and cs: "\<not> list_ex csv_special cs" by simp_all
    from c have "csv_read FieldStart [] row rows (c # cs @ COMMA # rest) = csv_read Unquoted [c] row rows (cs @ COMMA # rest)"
      by (simp add: csv_special_def)
    also have "\<dots> = csv_read Unquoted ([c] @ cs) row rows (COMMA # rest)"
      by (rule csv_read_unquoted [OF cs])
    also have "\<dots> = csv_read FieldStart [] (row @ [x]) rows rest"
      by (simp add: Cons)
    finally show ?thesis using False Cons by (simp add: csv_field_def)
  qed
qed

lemma csv_read_field_crlf:
  "csv_read FieldStart [] row rows (csv_field x @ CR # LF # rest) = csv_read FieldStart [] [] (rows @ [row @ [x]]) rest"
proof (cases "list_ex csv_special x")
  case True
  then show ?thesis
    using csv_read_quoted [of "[]" row rows x "CR # LF # rest"] by (simp add: csv_field_def)
next
  case False
  show ?thesis
  proof (cases x)
    case Nil
    then show ?thesis by (simp add: csv_field_def)
  next
    case (Cons c cs)
    with False have c: "\<not> csv_special c" and cs: "\<not> list_ex csv_special cs" by simp_all
    from c have "csv_read FieldStart [] row rows (c # cs @ CR # LF # rest) = csv_read Unquoted [c] row rows (cs @ CR # LF # rest)"
      by (simp add: csv_special_def)
    also have "\<dots> = csv_read Unquoted ([c] @ cs) row rows (CR # LF # rest)"
      by (rule csv_read_unquoted [OF cs])
    also have "\<dots> = csv_read FieldStart [] [] (rows @ [row @ [x]]) rest"
      by (simp add: Cons)
    finally show ?thesis using False Cons by (simp add: csv_field_def)
  qed
qed

lemma csv_read_writerow:
  "fs \<noteq> [] \<Longrightarrow>
   csv_read FieldStart [] row rows (writerow fs @ rest) = csv_read FieldStart [] [] (rows @ [row @ fs]) rest"
proof (induction fs arbitrary: row rule: csv_join.induct)
  case 1
  then show ?case by simp
next
  case (2 f)
  then show ?case using csv_read_field_crlf [of row rows f rest] by (simp add: writerow_def)
next
  case (3 f g gs)
  have "csv_read FieldStart [] row rows (writerow (f # g # gs) @ rest) =
        csv_read FieldStart [] row rows (csv_field f @ COMMA # (writerow (g # gs) @ rest))"
    by (simp add: writerow_def)
  also have "\<dots> = csv_read FieldStart [] (row @ [f]) rows (writerow (g # gs) @ rest)"
    by (rule csv_read_field_comma)
  also have "\<dots> = csv_read FieldStart [] [] (rows @ [(row @ [f]) @ g # gs]) rest"
    by (rule "3.IH") simp
  finally show ?case by simp
qed

lemma csv_read_rows:
  "\<forall>fs\<in>set rs. fs \<noteq> [] \<Longrightarrow>
   csv_read FieldStart [] [] rows (concat (map writerow rs)) = Some (rows @ rs)"
proof (induction rs arbitrary: rows)
  case Nil
  then show ?case by simp
next
  case (Cons fs rs)
  then have "csv_read FieldStart [] [] rows (writerow fs @ concat (map writerow rs)) =
             csv_read FieldStart [] [] (rows @ [fs]) (concat (map writerow rs))"
    using csv_read_writerow [of fs "[]" rows] by simp
  with Cons show ?case by simp
qed

text \<open>
  C8. For any table and filter, the CSV export is one text that begins with the line
  \<^verbatim>\<open>id,name,email,age,department\<close>; read as CSV it is the header record followed by
  exactly one record per selected row, in query order, each holding the row's id, name,
  email, age and department as they are stored. Commas, double quotes, carriage returns
  and line feeds inside a field therefore survive the writer's quoting.
\<close>

theorem export_csv_readable:
  "\<exists>payload rest.
     export_employees ''csv'' dept search db = Csv payload \<and>
     payload = ''id,name,email,age,department'' @ [CR, LF] @ rest \<and>
     csv_parse payload = Some (csv_header # map csv_record (export_query dept search db)) \<and>
     csv_parse rest = Some (map csv_record (export_query dept search db))"
proof -
  let ?rows = "export_query dept search db"
  let ?rest = "concat (map writerow (map csv_record ?rows))"
  have ne: "\<forall>fs\<in>set (csv_header # map csv_record ?rows). fs \<noteq> []"
    by (auto simp: csv_header_def csv_record_def)
  have body: "export_employees ''csv'' dept search db = Csv (writerow csv_header @ ?rest)"
    by (simp add: export_employees_def Let_def comp_def)
  have head: "writerow csv_header = ''id,name,email,age,department'' @ [CR, LF]"
    by (simp add: writerow_def csv_header_def csv_field_def csv_special_def)
  have "csv_parse (concat (map writerow (csv_header # map csv_record ?rows))) =
        Some ([] @ csv_header # map csv_record ?rows)"
    unfolding csv_parse_def by (rule csv_read_rows [OF ne])
  then have all: "csv_parse (writerow csv_header @ ?rest) = Some (csv_header # map csv_record ?rows)"
    by simp
  have "csv_parse ?rest = Some ([] @ map csv_record ?rows)"
    unfolding csv_parse_def by (rule csv_read_rows) (auto simp: csv_record_def)
  then have tail: "csv_parse ?rest = Some (map csv_record ?rows)" by simp
  show ?thesis
    using body head all tail by (intro exI [of _ "writerow csv_header @ ?rest"] exI [of _ ?rest]) simp
qed

theorem export_csv_readable_witness:
  "\<exists>payload. export_employees ''csv'' None None staff = Csv payload \<and>
     csv_parse payload =
       Some [[''id'', ''name'', ''email'', ''age'', ''department''],
             [''1'', ''Alice'', ''alice@example.com'', ''30'', ''Engineering''],
             [''2'', ''Bob, the builder'', ''bob@example.com'', ''41'', ''Sales'']]"
proof -
  have q: "export_query None None staff = staff"
    by (simp add: export_query_def)
  have n: "str_int 1 = ''1''" "str_int 2 = ''2''" "str_int 30 = ''30''" "str_int 41 = ''41''"
    by code_simp+
  have r: "csv_header # map csv_record staff =
       [[''id'', ''name'', ''email'', ''age'', ''department''],
        [''1'', ''Alice'', ''alice@example.com'', ''30'', ''Engineering''],
        [''2'', ''Bob, the builder'', ''bob@example.com'', ''41'', ''Sales'']]"
    by (simp add: csv_header_def csv_record_def staff_def alice_row_def bob_row_def n)
  show ?thesis
    using export_csv_readable [of None None staff] unfolding q r by blast
qed

subsection \<open>Search: what the two filters select\<close>























subsection \<open>Two inputs the validation lets through\<close>

text \<open>
  C2 at a concrete input. Alice is created with age 30; an update of her row with age 5
  is answered 200 and the row is stored with age 5.
\<close>

theorem update_stores_age_out_of_bounds:
  "post_employees alice [] = (Inr alice_row, [alice_row]) \<and>
   put_employee 1 (only_age 5) [alice_row] =
     (Inr (alice_row\<lparr> EmployeeORM.age := 5 \<rparr>), [alice_row\<lparr> EmployeeORM.age := 5 \<rparr>]) \<and>
   response_status 200 (fst (put_employee 1 (only_age 5) [alice_row])) = 200 \<and>
   \<not> InvalidField (fst (put_employee 1 (only_age 5) [alice_row])) \<and>
   EmployeeORM.age (alice_row\<lparr> EmployeeORM.age := 5 \<rparr>) < 18"
  by code_simp

text \<open>
  C5 at a concrete input. A create request whose name is one space passes
  \<^verbatim>\<open>min_length=1\<close>, is answered 201, and the row is stored with the empty name.
\<close>

theorem create_stores_blank_name:
  "strip (EmployeeCreate.name blank_name) = [] \<and>
   post_employees blank_name [] =
     (Inr (alice_row\<lparr> EmployeeORM.name := [] \<rparr>), [alice_row\<lparr> EmployeeORM.name := [] \<rparr>]) \<and>
   response_status 201 (fst (post_employees blank_name [])) = 201 \<and>
   \<not> InvalidField (fst (post_employees blank_name []))"
  by code_simp

end
